theory Spec2Isabelle
  imports Complex_Main
begin

section \<open>UnitedDecimal: a decimal with a unit\<close>

text \<open>
  This theory embeds \<^verbatim>\<open>shoop/utils/_united_decimal.py\<close>: the class
  \<^verbatim>\<open>UnitedDecimal(decimal.Decimal)\<close> and the exception
  \<^verbatim>\<open>UnitMixupError(TypeError)\<close>. Every special method of the class is a
  function that takes \<^verbatim>\<open>self\<close> and \<^verbatim>\<open>other\<close> and returns either the
  raised exception (\<open>Inl\<close>) or the returned object (\<open>Inr\<close>).

  Conventions of the model:
  \<^item> The magnitude of a decimal is its numerical value, a rational number, over
    finite values (no NaN, no infinity). Signed zeros and trailing zeros are not
    distinguished.
  \<^item> The arithmetic of \<^verbatim>\<open>decimal.Decimal\<close> computes the exact result and hands it
    to the decimal context, which rounds it to its precision or raises a signal
    (\<^verbatim>\<open>Overflow\<close>, say). The context is the parameter \<open>ctx\<close> of every function
    that computes; the methods of the source receive it through
    \<^verbatim>\<open>**kwargs\<close> or from \<^verbatim>\<open>decimal.getcontext()\<close>. The signals for a zero
    divisor are those of the default traps. The context that never rounds and never
    raises is \<open>exact_context\<close>.
  \<^item> The unit of an instance is its concrete class (\<^verbatim>\<open>type(self)\<close>): that is
    what \<^verbatim>\<open>new\<close> preserves.
  \<^item> \<^verbatim>\<open>unit_matches_with\<close> is abstract in the source (the base class raises
    \<^verbatim>\<open>NotImplementedError\<close>); the concrete classes supply it. It is the
    parameter \<open>m\<close> of every function that calls it.
  \<^item> The message strings of the exceptions are left out.
\<close>

subsection \<open>Objects and exceptions\<close>

text \<open>An instance of a concrete subclass of \<^verbatim>\<open>UnitedDecimal\<close>.\<close>

datatype 'u united = UD (unit_of: 'u) (magnitude: rat)

text \<open>
  The objects that the methods receive and return. \<open>Decimal\<close> is a plain
  \<^verbatim>\<open>decimal.Decimal\<close>; \<open>PyInt\<close>, \<open>PyBool\<close> and \<open>PyFloat\<close> are Python's
  \<^verbatim>\<open>int\<close>, \<^verbatim>\<open>bool\<close> and \<^verbatim>\<open>float\<close> (a finite float, given by its exact
  value); \<open>NotImplemented\<close> is the singleton that a binary special method returns
  for an operand it does not handle; \<open>NonNumber\<close> stands for any object that is no
  number at all (\<^verbatim>\<open>None\<close>, say).
\<close>

datatype 'u pyval =
    United "'u united"
  | Decimal rat
  | PyInt int
  | PyBool bool
  | PyFloat rat
  | NotImplemented
  | NonNumber

text \<open>
  The exceptions: \<^verbatim>\<open>UnitMixupError(obj1, obj2)\<close> of the source, the builtin
  \<^verbatim>\<open>TypeError\<close>, and the signals of the decimal module that the default
  context traps, that is, raises as exceptions.
\<close>

datatype decimal_signal = DivisionByZero | InvalidOperation | Overflow

datatype 'u error =
    UnitMixupError (obj1: "'u united") (obj2: "'u pyval")
  | TypeError
  | DecimalSignal decimal_signal

datatype exc_class =
    BaseException_class
  | Exception_class
  | TypeError_class
  | UnitMixupError_class
  | ArithmeticError_class
  | ZeroDivisionError_class
  | DecimalException_class
  | DivisionByZero_class
  | InvalidOperation_class
  | Inexact_class
  | Rounded_class
  | Overflow_class

text \<open>
  The direct base classes: \<^verbatim>\<open>class UnitMixupError(TypeError)\<close> is the source's;
  the others are Python's and the decimal module's.
\<close>

definition bases :: "exc_class \<Rightarrow> exc_class list" where
  "bases c =
     (case c of
        BaseException_class \<Rightarrow> []
      | Exception_class \<Rightarrow> [BaseException_class]
      | TypeError_class \<Rightarrow> [Exception_class]
      | UnitMixupError_class \<Rightarrow> [TypeError_class]
      | ArithmeticError_class \<Rightarrow> [Exception_class]
      | ZeroDivisionError_class \<Rightarrow> [ArithmeticError_class]
      | DecimalException_class \<Rightarrow> [ArithmeticError_class]
      | DivisionByZero_class \<Rightarrow> [DecimalException_class, ZeroDivisionError_class]
      | InvalidOperation_class \<Rightarrow> [DecimalException_class]
      | Inexact_class \<Rightarrow> [DecimalException_class]
      | Rounded_class \<Rightarrow> [DecimalException_class]
      | Overflow_class \<Rightarrow> [Inexact_class, Rounded_class])"

text \<open>
  \<open>superclasses n c\<close>: the class \<open>c\<close> and what it inherits from through at most
  \<open>n\<close> steps. No chain of base classes above is longer than five steps.
\<close>

fun superclasses :: "nat \<Rightarrow> exc_class \<Rightarrow> exc_class list" where
  "superclasses 0 c = [c]"
| "superclasses (Suc n) c = c # concat (map (superclasses n) (bases c))"

definition issubclass :: "exc_class \<Rightarrow> exc_class \<Rightarrow> bool" where
  "issubclass c d = (d \<in> set (superclasses 5 c))"

definition class_of :: "'u error \<Rightarrow> exc_class" where
  "class_of e =
     (case e of
        UnitMixupError a b \<Rightarrow> UnitMixupError_class
      | TypeError \<Rightarrow> TypeError_class
      | DecimalSignal DivisionByZero \<Rightarrow> DivisionByZero_class
      | DecimalSignal InvalidOperation \<Rightarrow> InvalidOperation_class
      | DecimalSignal Overflow \<Rightarrow> Overflow_class)"

text \<open>\<^verbatim>\<open>except handler: ...\<close> catches an exception that is an instance of \<open>handler\<close>.\<close>

definition catches :: "exc_class \<Rightarrow> 'u error \<Rightarrow> bool" where
  "catches handler e = issubclass (class_of e) handler"

definition bind_result :: "'e + 'a \<Rightarrow> ('a \<Rightarrow> 'e + 'b) \<Rightarrow> 'e + 'b" where
  "bind_result r f = (case r of Inl e \<Rightarrow> Inl e | Inr v \<Rightarrow> f v)"

subsection \<open>The decimal primitive\<close>

text \<open>
  The decimal context, as far as the arithmetic below consults it. \<open>finalize ctx z\<close>
  is what the context makes of the exact result \<open>z\<close> of an operation: the value
  rounded to the context's precision, or the signal it raises. \<open>quotient_fits ctx q\<close>
  says that the integer quotient \<open>q\<close> has no more digits than the precision; the
  integer division raises \<^verbatim>\<open>InvalidOperation\<close> otherwise.
\<close>

datatype decimal_context =
  Context (finalize: "rat \<Rightarrow> decimal_signal + rat") (quotient_fits: "int \<Rightarrow> bool")

text \<open>Exact arithmetic: nothing is rounded, nothing overflows.\<close>

definition exact_context :: decimal_context where
  "exact_context = Context (\<lambda>z. Inr z) (\<lambda>q. True)"

text \<open>
  A context that does round and overflow, small enough to write out:
  \<^verbatim>\<open>decimal.Context(prec=1, Emax=0, Emin=0)\<close> with the default rounding
  (half to even) and the default traps. Its numbers are the integers from \<open>-9\<close> to
  \<open>9\<close>: a result is rounded to the nearest integer, and \<^verbatim>\<open>Overflow\<close> is raised
  when that is \<open>10\<close> or more in absolute value.
\<close>

definition round_half_even :: "rat \<Rightarrow> int" where
  "round_half_even z =
     (let f = \<lfloor>z\<rfloor>; d = z - of_int f
      in if d < 1 / 2 then f else if 1 / 2 < d then f + 1 else if even f then f else f + 1)"

definition one_digit_context :: decimal_context where
  "one_digit_context =
     Context
       (\<lambda>z. if 10 \<le> \<bar>round_half_even z\<bar> then Inl Overflow
            else Inr (of_int (round_half_even z)))
       (\<lambda>q. \<bar>q\<bar> < 10)"

text \<open>A signal of the context is raised as the exception of its name.\<close>

definition raise_signal :: "decimal_signal + 'a \<Rightarrow> 'u error + 'a" where
  "raise_signal r = (case r of Inl s \<Rightarrow> Inl (DecimalSignal s) | Inr v \<Rightarrow> Inr v)"

definition finalized :: "decimal_context \<Rightarrow> rat \<Rightarrow> 'u error + 'u pyval" where
  "finalized ctx z = bind_result (raise_signal (finalize ctx z)) (\<lambda>r. Inr (Decimal r))"

text \<open>
  What the arithmetic methods of \<^verbatim>\<open>decimal.Decimal\<close> accept as the other operand:
  a \<^verbatim>\<open>Decimal\<close> (an instance of a subclass included) or an \<^verbatim>\<open>int\<close> (a
  \<^verbatim>\<open>bool\<close> included). For anything else, a \<^verbatim>\<open>float\<close> included, they return
  \<^verbatim>\<open>NotImplemented\<close>.
\<close>

definition convert_other :: "'u pyval \<Rightarrow> rat option" where
  "convert_other other =
     (case other of
        United b \<Rightarrow> Some (magnitude b)
      | Decimal y \<Rightarrow> Some y
      | PyInt i \<Rightarrow> Some (of_int i)
      | PyBool t \<Rightarrow> Some (if t then 1 else 0)
      | PyFloat f \<Rightarrow> None
      | NotImplemented \<Rightarrow> None
      | NonNumber \<Rightarrow> None)"

text \<open>The comparisons accept a \<^verbatim>\<open>float\<close> as well and compare with its exact value.\<close>

definition convert_for_comparison :: "'u pyval \<Rightarrow> rat option" where
  "convert_for_comparison other =
     (case other of
        United b \<Rightarrow> Some (magnitude b)
      | Decimal y \<Rightarrow> Some y
      | PyInt i \<Rightarrow> Some (of_int i)
      | PyBool t \<Rightarrow> Some (if t then 1 else 0)
      | PyFloat f \<Rightarrow> Some f
      | NotImplemented \<Rightarrow> None
      | NonNumber \<Rightarrow> None)"

definition dec_compare :: "(rat \<Rightarrow> rat \<Rightarrow> bool) \<Rightarrow> rat \<Rightarrow> 'u pyval \<Rightarrow> 'u error + 'u pyval" where
  "dec_compare rel x other =
     (case convert_for_comparison other of
        None \<Rightarrow> Inr NotImplemented
      | Some y \<Rightarrow> Inr (PyBool (rel x y)))"

definition dec_lt :: "rat \<Rightarrow> 'u pyval \<Rightarrow> 'u error + 'u pyval" where
  "dec_lt = dec_compare (\<lambda>x y. x < y)"

definition dec_le :: "rat \<Rightarrow> 'u pyval \<Rightarrow> 'u error + 'u pyval" where
  "dec_le = dec_compare (\<lambda>x y. x \<le> y)"

definition dec_gt :: "rat \<Rightarrow> 'u pyval \<Rightarrow> 'u error + 'u pyval" where
  "dec_gt = dec_compare (\<lambda>x y. x > y)"

definition dec_ge :: "rat \<Rightarrow> 'u pyval \<Rightarrow> 'u error + 'u pyval" where
  "dec_ge = dec_compare (\<lambda>x y. x \<ge> y)"

definition dec_eq :: "rat \<Rightarrow> 'u pyval \<Rightarrow> 'u error + 'u pyval" where
  "dec_eq = dec_compare (\<lambda>x y. x = y)"

definition dec_ne :: "rat \<Rightarrow> 'u pyval \<Rightarrow> 'u error + 'u pyval" where
  "dec_ne = dec_compare (\<lambda>x y. x \<noteq> y)"

definition dec_arith ::
  "decimal_context \<Rightarrow> (rat \<Rightarrow> rat \<Rightarrow> rat) \<Rightarrow> rat \<Rightarrow> 'u pyval \<Rightarrow> 'u error + 'u pyval" where
  "dec_arith ctx f x other =
     (case convert_other other of
        None \<Rightarrow> Inr NotImplemented
      | Some y \<Rightarrow> finalized ctx (f x y))"

definition dec_add :: "decimal_context \<Rightarrow> rat \<Rightarrow> 'u pyval \<Rightarrow> 'u error + 'u pyval" where
  "dec_add ctx = dec_arith ctx (\<lambda>x y. x + y)"

definition dec_sub :: "decimal_context \<Rightarrow> rat \<Rightarrow> 'u pyval \<Rightarrow> 'u error + 'u pyval" where
  "dec_sub ctx = dec_arith ctx (\<lambda>x y. x - y)"

definition dec_mul :: "decimal_context \<Rightarrow> rat \<Rightarrow> 'u pyval \<Rightarrow> 'u error + 'u pyval" where
  "dec_mul ctx = dec_arith ctx (\<lambda>x y. x * y)"

definition dec_neg :: "decimal_context \<Rightarrow> rat \<Rightarrow> 'u error + 'u pyval" where
  "dec_neg ctx x = finalized ctx (- x)"

text \<open>
  Division. A zero divisor raises \<^verbatim>\<open>DivisionByZero\<close>, and
  \<^verbatim>\<open>InvalidOperation\<close> where the decimal module says the result is undefined
  (\<^verbatim>\<open>0 / 0\<close>, \<^verbatim>\<open>0 // 0\<close>, \<^verbatim>\<open>x % 0\<close>) or signals both, as for
  \<^verbatim>\<open>divmod(x, 0)\<close>.
\<close>

definition divide_values :: "decimal_context \<Rightarrow> rat \<Rightarrow> rat \<Rightarrow> 'u error + 'u pyval" where
  "divide_values ctx x y =
     (if y = 0 then (if x = 0 then Inl (DecimalSignal InvalidOperation) else Inl (DecimalSignal DivisionByZero))
      else finalized ctx (x / y))"

definition dec_truediv :: "decimal_context \<Rightarrow> rat \<Rightarrow> 'u pyval \<Rightarrow> 'u error + 'u pyval" where
  "dec_truediv ctx x other =
     (case convert_other other of
        None \<Rightarrow> Inr NotImplemented
      | Some y \<Rightarrow> divide_values ctx x y)"

definition dec_rtruediv :: "decimal_context \<Rightarrow> rat \<Rightarrow> 'u pyval \<Rightarrow> 'u error + 'u pyval" where
  "dec_rtruediv ctx x other =
     (case convert_other other of
        None \<Rightarrow> Inr NotImplemented
      | Some y \<Rightarrow> divide_values ctx y x)"

text \<open>
  The integer quotient of the decimal module truncates towards zero, and the
  remainder takes the sign of the dividend. A quotient of more digits than the
  precision raises \<^verbatim>\<open>InvalidOperation\<close>.
\<close>

definition trunc_quot :: "rat \<Rightarrow> rat \<Rightarrow> int" where
  "trunc_quot x y = (if 0 \<le> x / y then \<lfloor>x / y\<rfloor> else \<lceil>x / y\<rceil>)"

definition trunc_rem :: "rat \<Rightarrow> rat \<Rightarrow> rat" where
  "trunc_rem x y = x - y * of_int (trunc_quot x y)"

definition floordiv_values :: "decimal_context \<Rightarrow> rat \<Rightarrow> rat \<Rightarrow> 'u error + 'u pyval" where
  "floordiv_values ctx x y =
     (if y = 0 then (if x = 0 then Inl (DecimalSignal InvalidOperation) else Inl (DecimalSignal DivisionByZero))
      else if \<not> quotient_fits ctx (trunc_quot x y) then Inl (DecimalSignal InvalidOperation)
      else Inr (Decimal (of_int (trunc_quot x y))))"

definition dec_floordiv :: "decimal_context \<Rightarrow> rat \<Rightarrow> 'u pyval \<Rightarrow> 'u error + 'u pyval" where
  "dec_floordiv ctx x other =
     (case convert_other other of
        None \<Rightarrow> Inr NotImplemented
      | Some y \<Rightarrow> floordiv_values ctx x y)"

definition dec_rfloordiv :: "decimal_context \<Rightarrow> rat \<Rightarrow> 'u pyval \<Rightarrow> 'u error + 'u pyval" where
  "dec_rfloordiv ctx x other =
     (case convert_other other of
        None \<Rightarrow> Inr NotImplemented
      | Some y \<Rightarrow> floordiv_values ctx y x)"

definition dec_mod :: "decimal_context \<Rightarrow> rat \<Rightarrow> 'u pyval \<Rightarrow> 'u error + 'u pyval" where
  "dec_mod ctx x other =
     (case convert_other other of
        None \<Rightarrow> Inr NotImplemented
      | Some y \<Rightarrow>
          if y = 0 then Inl (DecimalSignal InvalidOperation)
          else if \<not> quotient_fits ctx (trunc_quot x y) then Inl (DecimalSignal InvalidOperation)
          else finalized ctx (trunc_rem x y))"

text \<open>
  \<^verbatim>\<open>Decimal.__divmod__\<close> returns a pair, or the single object
  \<^verbatim>\<open>NotImplemented\<close> (here \<open>None\<close>).
\<close>

definition dec_divmod ::
  "decimal_context \<Rightarrow> rat \<Rightarrow> 'u pyval \<Rightarrow> 'u error + ('u pyval \<times> 'u pyval) option" where
  "dec_divmod ctx x other =
     (case convert_other other of
        None \<Rightarrow> Inr None
      | Some y \<Rightarrow>
          if y = 0 then Inl (DecimalSignal InvalidOperation)
          else if \<not> quotient_fits ctx (trunc_quot x y) then Inl (DecimalSignal InvalidOperation)
          else bind_result (raise_signal (finalize ctx (trunc_rem x y)))
                 (\<lambda>r. Inr (Some (Decimal (of_int (trunc_quot x y)), Decimal r))))"

subsection \<open>The methods of UnitedDecimal\<close>

text \<open>The property \<^verbatim>\<open>value\<close>: \<^verbatim>\<open>decimal.Decimal(self)\<close>.\<close>

definition value_of :: "'u united \<Rightarrow> 'u pyval" where
  "value_of self = Decimal (magnitude self)"

text \<open>
  \<^verbatim>\<open>new(self, value)\<close> is \<^verbatim>\<open>type(self)(value)\<close>: the constructor of the
  decimal takes a decimal, an integer or a float, exactly, and raises
  \<^verbatim>\<open>TypeError\<close> on \<^verbatim>\<open>NotImplemented\<close> and on an object that is no number.
\<close>

definition new :: "'u united \<Rightarrow> 'u pyval \<Rightarrow> 'u error + 'u pyval" where
  "new self v =
     (case v of
        United b \<Rightarrow> Inr (United (UD (unit_of self) (magnitude b)))
      | Decimal y \<Rightarrow> Inr (United (UD (unit_of self) y))
      | PyInt i \<Rightarrow> Inr (United (UD (unit_of self) (of_int i)))
      | PyBool t \<Rightarrow> Inr (United (UD (unit_of self) (if t then 1 else 0)))
      | PyFloat f \<Rightarrow> Inr (United (UD (unit_of self) f))
      | NotImplemented \<Rightarrow> Inl TypeError
      | NonNumber \<Rightarrow> Inl TypeError)"

definition isinstance_UnitedDecimal :: "'u pyval \<Rightarrow> bool" where
  "isinstance_UnitedDecimal other = (case other of United b \<Rightarrow> True | _ \<Rightarrow> False)"

definition check_units_match ::
  "('u united \<Rightarrow> 'u pyval \<Rightarrow> bool) \<Rightarrow> 'u united \<Rightarrow> 'u pyval \<Rightarrow> 'u error + unit" where
  "check_units_match m self other =
     (if \<not> m self other then Inl (UnitMixupError self other) else Inr ())"

text \<open>The comparisons of the decimal module are exact: they consult no context.\<close>

definition ud_lt :: "('u united \<Rightarrow> 'u pyval \<Rightarrow> bool) \<Rightarrow> 'u united \<Rightarrow> 'u pyval \<Rightarrow> 'u error + 'u pyval" where
  "ud_lt m self other =
     bind_result (check_units_match m self other) (\<lambda>_. dec_lt (magnitude self) other)"

definition ud_le :: "('u united \<Rightarrow> 'u pyval \<Rightarrow> bool) \<Rightarrow> 'u united \<Rightarrow> 'u pyval \<Rightarrow> 'u error + 'u pyval" where
  "ud_le m self other =
     bind_result (check_units_match m self other) (\<lambda>_. dec_le (magnitude self) other)"

definition ud_gt :: "('u united \<Rightarrow> 'u pyval \<Rightarrow> bool) \<Rightarrow> 'u united \<Rightarrow> 'u pyval \<Rightarrow> 'u error + 'u pyval" where
  "ud_gt m self other =
     bind_result (check_units_match m self other) (\<lambda>_. dec_gt (magnitude self) other)"

definition ud_ge :: "('u united \<Rightarrow> 'u pyval \<Rightarrow> bool) \<Rightarrow> 'u united \<Rightarrow> 'u pyval \<Rightarrow> 'u error + 'u pyval" where
  "ud_ge m self other =
     bind_result (check_units_match m self other) (\<lambda>_. dec_ge (magnitude self) other)"

definition ud_eq :: "('u united \<Rightarrow> 'u pyval \<Rightarrow> bool) \<Rightarrow> 'u united \<Rightarrow> 'u pyval \<Rightarrow> 'u error + 'u pyval" where
  "ud_eq m self other =
     (if \<not> m self other then Inr (PyBool False)
      else dec_eq (magnitude self) other)"

definition ud_ne :: "('u united \<Rightarrow> 'u pyval \<Rightarrow> bool) \<Rightarrow> 'u united \<Rightarrow> 'u pyval \<Rightarrow> 'u error + 'u pyval" where
  "ud_ne m self other =
     (if \<not> m self other then Inr (PyBool True)
      else dec_ne (magnitude self) other)"

definition ud_add ::
  "decimal_context \<Rightarrow> ('u united \<Rightarrow> 'u pyval \<Rightarrow> bool) \<Rightarrow> 'u united \<Rightarrow> 'u pyval \<Rightarrow> 'u error + 'u pyval" where
  "ud_add ctx m self other =
     bind_result (check_units_match m self other)
       (\<lambda>_. bind_result (dec_add ctx (magnitude self) other) (new self))"

definition ud_sub ::
  "decimal_context \<Rightarrow> ('u united \<Rightarrow> 'u pyval \<Rightarrow> bool) \<Rightarrow> 'u united \<Rightarrow> 'u pyval \<Rightarrow> 'u error + 'u pyval" where
  "ud_sub ctx m self other =
     bind_result (check_units_match m self other)
       (\<lambda>_. bind_result (dec_sub ctx (magnitude self) other) (new self))"

definition ud_mul :: "decimal_context \<Rightarrow> 'u united \<Rightarrow> 'u pyval \<Rightarrow> 'u error + 'u pyval" where
  "ud_mul ctx self other =
     (if isinstance_UnitedDecimal other then Inl TypeError
      else bind_result (dec_mul ctx (magnitude self) other) (new self))"

definition ud_neg :: "decimal_context \<Rightarrow> 'u united \<Rightarrow> 'u error + 'u pyval" where
  "ud_neg ctx self = bind_result (dec_neg ctx (magnitude self)) (new self)"

definition ud_radd ::
  "decimal_context \<Rightarrow> ('u united \<Rightarrow> 'u pyval \<Rightarrow> bool) \<Rightarrow> 'u united \<Rightarrow> 'u pyval \<Rightarrow> 'u error + 'u pyval" where
  "ud_radd ctx m self other = ud_add ctx m self other"

text \<open>
  \<^verbatim>\<open>(-self).__add__(other)\<close>: the negation is an instance of the class of
  \<^verbatim>\<open>self\<close> (\<open>new\<close> returns nothing else), and its \<^verbatim>\<open>__add__\<close> is called.
\<close>

definition ud_rsub ::
  "decimal_context \<Rightarrow> ('u united \<Rightarrow> 'u pyval \<Rightarrow> bool) \<Rightarrow> 'u united \<Rightarrow> 'u pyval \<Rightarrow> 'u error + 'u pyval" where
  "ud_rsub ctx m self other =
     bind_result (ud_neg ctx self)
       (\<lambda>n. case n of United negated \<Rightarrow> ud_add ctx m negated other | _ \<Rightarrow> Inl TypeError)"

definition ud_rmul :: "decimal_context \<Rightarrow> 'u united \<Rightarrow> 'u pyval \<Rightarrow> 'u error + 'u pyval" where
  "ud_rmul ctx self other = ud_mul ctx self other"

definition ud_truediv ::
  "decimal_context \<Rightarrow> ('u united \<Rightarrow> 'u pyval \<Rightarrow> bool) \<Rightarrow> 'u united \<Rightarrow> 'u pyval \<Rightarrow> 'u error + 'u pyval" where
  "ud_truediv ctx m self other =
     (if isinstance_UnitedDecimal other then
        bind_result (check_units_match m self other)
          (\<lambda>_. dec_truediv ctx (magnitude self) other)
      else bind_result (dec_truediv ctx (magnitude self) other) (new self))"

definition ud_rtruediv ::
  "decimal_context \<Rightarrow> ('u united \<Rightarrow> 'u pyval \<Rightarrow> bool) \<Rightarrow> 'u united \<Rightarrow> 'u pyval \<Rightarrow> 'u error + 'u pyval" where
  "ud_rtruediv ctx m self other =
     (if \<not> isinstance_UnitedDecimal other then Inl TypeError
      else bind_result (check_units_match m self other)
             (\<lambda>_. dec_rtruediv ctx (magnitude self) other))"

definition ud_floordiv ::
  "decimal_context \<Rightarrow> ('u united \<Rightarrow> 'u pyval \<Rightarrow> bool) \<Rightarrow> 'u united \<Rightarrow> 'u pyval \<Rightarrow> 'u error + 'u pyval" where
  "ud_floordiv ctx m self other =
     (if \<not> isinstance_UnitedDecimal other then Inl TypeError
      else bind_result (check_units_match m self other)
             (\<lambda>_. dec_floordiv ctx (magnitude self) other))"

definition ud_rfloordiv ::
  "decimal_context \<Rightarrow> ('u united \<Rightarrow> 'u pyval \<Rightarrow> bool) \<Rightarrow> 'u united \<Rightarrow> 'u pyval \<Rightarrow> 'u error + 'u pyval" where
  "ud_rfloordiv ctx m self other =
     (if \<not> isinstance_UnitedDecimal other then Inl TypeError
      else bind_result (check_units_match m self other)
             (\<lambda>_. dec_rfloordiv ctx (magnitude self) other))"

definition ud_mod ::
  "decimal_context \<Rightarrow> ('u united \<Rightarrow> 'u pyval \<Rightarrow> bool) \<Rightarrow> 'u united \<Rightarrow> 'u pyval \<Rightarrow> 'u error + 'u pyval" where
  "ud_mod ctx m self other =
     (if \<not> isinstance_UnitedDecimal other then Inl TypeError
      else bind_result (check_units_match m self other)
             (\<lambda>_. bind_result (dec_mod ctx (magnitude self) other) (new self)))"

text \<open>
  \<^verbatim>\<open>(div, mod) = super().__divmod__(other)\<close>: unpacking
  \<^verbatim>\<open>NotImplemented\<close> would raise \<^verbatim>\<open>TypeError\<close>.
\<close>

definition ud_divmod ::
  "decimal_context \<Rightarrow> ('u united \<Rightarrow> 'u pyval \<Rightarrow> bool) \<Rightarrow> 'u united \<Rightarrow> 'u pyval
     \<Rightarrow> 'u error + ('u pyval \<times> 'u pyval)" where
  "ud_divmod ctx m self other =
     (if \<not> isinstance_UnitedDecimal other then Inl TypeError
      else bind_result (check_units_match m self other)
             (\<lambda>_. bind_result (dec_divmod ctx (magnitude self) other)
                (\<lambda>r. case r of
                        None \<Rightarrow> Inl TypeError
                      | Some (dv, md) \<Rightarrow> bind_result (new self md) (\<lambda>md'. Inr (dv, md')))))"

definition ud_pow :: "'u united \<Rightarrow> 'u pyval \<Rightarrow> 'u error + 'u pyval" where
  "ud_pow self other = Inl TypeError"

subsection \<open>Two concrete units\<close>

text \<open>
  Modelled from the spec: the concrete classes \<^verbatim>\<open>TaxfulPrice\<close> and
  \<^verbatim>\<open>TaxlessPrice\<close> that the docstring of \<^verbatim>\<open>UnitedDecimal\<close> names are not in
  the source file, and neither is their \<^verbatim>\<open>unit_matches_with\<close>. The
  specification gives the typical matching rule, "same concrete variant": the other
  operand is a united decimal of the same class.
\<close>

datatype price_class = TaxfulPrice | TaxlessPrice

definition price_unit_matches :: "price_class united \<Rightarrow> price_class pyval \<Rightarrow> bool" where
  "price_unit_matches self other =
     (case other of United b \<Rightarrow> unit_of b = unit_of self | _ \<Rightarrow> False)"

subsection \<open>The order of checks that the specification describes for reverse division\<close>

text \<open>
  The specification says of the reverse true division that the unit check runs
  before the check that the other operand is a united decimal. This definition
  follows those words; \<open>ud_rtruediv\<close> above follows the source.
\<close>

definition rtruediv_unit_check_first ::
  "decimal_context \<Rightarrow> ('u united \<Rightarrow> 'u pyval \<Rightarrow> bool) \<Rightarrow> 'u united \<Rightarrow> 'u pyval \<Rightarrow> 'u error + 'u pyval" where
  "rtruediv_unit_check_first ctx m self other =
     bind_result (check_units_match m self other)
       (\<lambda>_. if \<not> isinstance_UnitedDecimal other then Inl TypeError
            else dec_rtruediv ctx (magnitude self) other)"

section \<open>Basic facts\<close>

lemma bind_result_simps:
  "bind_result (Inl e) f = Inl e"
  "bind_result (Inr v) f = f v"
  by (simp_all add: bind_result_def)

lemma isinstance_UnitedDecimal_simps:
  "isinstance_UnitedDecimal (United b) = True"
  "isinstance_UnitedDecimal (Decimal y) = False"
  "isinstance_UnitedDecimal (PyInt i) = False"
  "isinstance_UnitedDecimal (PyBool t) = False"
  "isinstance_UnitedDecimal (PyFloat f) = False"
  "isinstance_UnitedDecimal NotImplemented = False"
  "isinstance_UnitedDecimal NonNumber = False"
  by (simp_all add: isinstance_UnitedDecimal_def)

lemma check_units_match_simps:
  "\<not> m a b \<Longrightarrow> check_units_match m a b = Inl (UnitMixupError a b)"
  "m a b \<Longrightarrow> check_units_match m a b = Inr ()"
  by (simp_all add: check_units_match_def)

lemma convert_other_simps:
  "convert_other (United b) = Some (magnitude b)"
  "convert_other (Decimal y) = Some y"
  "convert_other (PyInt i) = Some (of_int i)"
  "convert_other (PyBool t) = Some (if t then 1 else 0)"
  "convert_other (PyFloat f) = None"
  "convert_other NotImplemented = None"
  "convert_other NonNumber = None"
  by (simp_all add: convert_other_def)

lemma convert_for_comparison_simps:
  "convert_for_comparison (United b) = Some (magnitude b)"
  "convert_for_comparison (Decimal y) = Some y"
  "convert_for_comparison (PyInt i) = Some (of_int i)"
  "convert_for_comparison (PyBool t) = Some (if t then 1 else 0)"
  "convert_for_comparison (PyFloat f) = Some f"
  "convert_for_comparison NotImplemented = None"
  "convert_for_comparison NonNumber = None"
  by (simp_all add: convert_for_comparison_def)

text \<open>
  The operands that are no united decimals and that the arithmetic of the decimal
  converts are the plain decimals and the integers.
\<close>

lemma plain_decimal_or_integer:
  "\<not> isinstance_UnitedDecimal s \<and> convert_other s = Some y \<longleftrightarrow>
     s = Decimal y \<or> (\<exists>i. s = PyInt i \<and> y = of_int i)
     \<or> (\<exists>t. s = PyBool t \<and> y = (if t then 1 else 0))"
  by (cases s) (auto simp: isinstance_UnitedDecimal_def convert_other_def)

lemma exact_context_simps:
  "finalize exact_context z = Inr z"
  "quotient_fits exact_context q = True"
  by (simp_all add: exact_context_def)

lemma finalized_simps:
  "finalize ctx z = Inr r \<Longrightarrow> finalized ctx z = Inr (Decimal r)"
  "finalize ctx z = Inl e \<Longrightarrow> finalized ctx z = Inl (DecimalSignal e)"
  "finalized exact_context z = Inr (Decimal z)"
  by (simp_all add: finalized_def raise_signal_def bind_result_def exact_context_def)

lemma new_Decimal: "new a (Decimal y) = Inr (United (UD (unit_of a) y))"
  by (simp add: new_def)

lemma price_unit_matches_simps:
  "price_unit_matches a (United b) = (unit_of b = unit_of a)"
  "price_unit_matches a (Decimal y) = False"
  "price_unit_matches a (PyInt i) = False"
  "price_unit_matches a (PyFloat f) = False"
  by (simp_all add: price_unit_matches_def)

text \<open>
  The integer quotient and the remainder of the decimal primitive are a division
  with remainder: the remainder is smaller than the divisor in absolute value.
\<close>

lemma trunc_quot_rem: "x = y * of_int (trunc_quot x y) + trunc_rem x y"
  by (simp add: trunc_rem_def)

lemma trunc_diff_lt_1: "\<bar>(z::rat) - of_int (if 0 \<le> z then \<lfloor>z\<rfloor> else \<lceil>z\<rceil>)\<bar> < 1"
  by (auto simp: abs_less_iff; linarith)

lemma trunc_rem_bound:
  assumes "y \<noteq> 0"
  shows "\<bar>trunc_rem x y\<bar> < \<bar>y\<bar>"
proof -
  let ?q = "of_int (trunc_quot x y) :: rat"
  have "trunc_rem x y = y * (x / y - ?q)"
    using assms by (simp add: trunc_rem_def algebra_simps)
  then have "\<bar>trunc_rem x y\<bar> = \<bar>y\<bar> * \<bar>x / y - ?q\<bar>"
    by (simp add: abs_mult)
  moreover have "\<bar>x / y - ?q\<bar> < 1"
    unfolding trunc_quot_def using trunc_diff_lt_1 [of "x / y"] by simp
  ultimately show ?thesis
    using assms by (simp add: mult_less_cancel_left2)
qed

lemma trunc_7_2: "trunc_quot 7 2 = 3" "trunc_rem 7 2 = 1"
  by (simp_all add: trunc_quot_def trunc_rem_def floor_eq_iff)

text \<open>
  The operations that only check the units raise the unit mix-up for any operand
  that does not match, a united decimal or not, in every context.
\<close>

lemma unit_mismatch_any_operand:
  assumes "\<not> m a x"
  shows "ud_add ctx m a x = Inl (UnitMixupError a x)"
    and "ud_sub ctx m a x = Inl (UnitMixupError a x)"
    and "ud_lt m a x = Inl (UnitMixupError a x)"
    and "ud_le m a x = Inl (UnitMixupError a x)"
    and "ud_gt m a x = Inl (UnitMixupError a x)"
    and "ud_ge m a x = Inl (UnitMixupError a x)"
  using assms
  by (simp_all add: ud_add_def ud_sub_def ud_lt_def ud_le_def ud_gt_def ud_ge_def
      check_units_match_simps bind_result_simps)

lemma ud_neg_eq:
  "finalize ctx (- magnitude a) = Inr n \<Longrightarrow> ud_neg ctx a = Inr (United (UD (unit_of a) n))"
  "finalize ctx (- magnitude a) = Inl e \<Longrightarrow> ud_neg ctx a = Inl (DecimalSignal e)"
  "ud_neg exact_context a = Inr (United (UD (unit_of a) (- magnitude a)))"
  by (simp_all add: ud_neg_def dec_neg_def finalized_simps bind_result_simps new_Decimal)

lemma ud_add_matching:
  assumes "m a s" and "convert_other s = Some y"
  shows "finalize ctx (magnitude a + y) = Inr z \<Longrightarrow>
           ud_add ctx m a s = Inr (United (UD (unit_of a) z))"
    and "finalize ctx (magnitude a + y) = Inl e \<Longrightarrow> ud_add ctx m a s = Inl (DecimalSignal e)"
    and "ud_add exact_context m a s = Inr (United (UD (unit_of a) (magnitude a + y)))"
  using assms
  by (simp_all add: ud_add_def check_units_match_simps bind_result_simps dec_add_def
      dec_arith_def finalized_simps new_Decimal)

lemma ud_add_float:
  "m a (PyFloat f) \<Longrightarrow> ud_add ctx m a (PyFloat f) = Inl TypeError"
  by (simp add: ud_add_def check_units_match_simps bind_result_simps dec_add_def
      dec_arith_def convert_other_simps new_def)

lemma ud_mul_plain:
  assumes "\<not> isinstance_UnitedDecimal s" and "convert_other s = Some y"
  shows "finalize ctx (magnitude a * y) = Inr z \<Longrightarrow>
           ud_mul ctx a s = Inr (United (UD (unit_of a) z))"
    and "finalize ctx (magnitude a * y) = Inl e \<Longrightarrow> ud_mul ctx a s = Inl (DecimalSignal e)"
    and "ud_mul exact_context a s = Inr (United (UD (unit_of a) (magnitude a * y)))"
    and "finalize ctx (magnitude a * y) = Inr z \<Longrightarrow>
           dec_mul ctx (magnitude a) s = Inr (Decimal z)"
    and "finalize ctx (magnitude a * y) = Inl e \<Longrightarrow>
           dec_mul ctx (magnitude a) s = (Inl (DecimalSignal e) :: 'u error + 'u pyval)"
  using assms
  by (simp_all add: ud_mul_def bind_result_simps dec_mul_def dec_arith_def finalized_simps
      new_Decimal)

lemma ud_mul_float: "ud_mul ctx a (PyFloat f) = Inl TypeError"
  by (simp add: ud_mul_def isinstance_UnitedDecimal_simps dec_mul_def dec_arith_def
      convert_other_simps bind_result_simps new_def)

lemma ud_truediv_plain:
  assumes "\<not> isinstance_UnitedDecimal s" and "convert_other s = Some y"
  shows "y \<noteq> 0 \<Longrightarrow> finalize ctx (magnitude a / y) = Inr z \<Longrightarrow>
           ud_truediv ctx m a s = Inr (United (UD (unit_of a) z))"
    and "y \<noteq> 0 \<Longrightarrow> finalize ctx (magnitude a / y) = Inl e \<Longrightarrow>
           ud_truediv ctx m a s = Inl (DecimalSignal e)"
    and "y \<noteq> 0 \<Longrightarrow>
           ud_truediv exact_context m a s = Inr (United (UD (unit_of a) (magnitude a / y)))"
    and "y = 0 \<Longrightarrow>
           ud_truediv ctx m a s
             = Inl (DecimalSignal (if magnitude a = 0 then InvalidOperation else DivisionByZero))"
  using assms
  by (simp_all add: ud_truediv_def bind_result_simps dec_truediv_def divide_values_def
      finalized_simps new_Decimal)

lemma ud_truediv_float: "ud_truediv ctx m a (PyFloat f) = Inl TypeError"
  by (simp add: ud_truediv_def isinstance_UnitedDecimal_simps dec_truediv_def
      convert_other_simps bind_result_simps new_def)

lemma ud_truediv_united:
  assumes "m a (United b)"
  shows "ud_truediv ctx m a (United b) = dec_truediv ctx (magnitude a) (value_of b)"
    and "magnitude b \<noteq> 0 \<Longrightarrow> finalize ctx (magnitude a / magnitude b) = Inr z \<Longrightarrow>
           ud_truediv ctx m a (United b) = Inr (Decimal z)"
    and "magnitude b \<noteq> 0 \<Longrightarrow>
           ud_truediv exact_context m a (United b) = Inr (Decimal (magnitude a / magnitude b))"
  using assms
  by (simp_all add: ud_truediv_def isinstance_UnitedDecimal_simps check_units_match_simps
      bind_result_simps dec_truediv_def value_of_def convert_other_simps divide_values_def
      finalized_simps)

lemma ud_divmod_matching:
  assumes "m a (United b)" and "magnitude b \<noteq> 0"
  shows "quotient_fits ctx (trunc_quot (magnitude a) (magnitude b)) \<Longrightarrow>
         finalize ctx (trunc_rem (magnitude a) (magnitude b)) = Inr r \<Longrightarrow>
           ud_divmod ctx m a (United b)
             = Inr (Decimal (of_int (trunc_quot (magnitude a) (magnitude b))),
                    United (UD (unit_of a) r))"
    and "ud_divmod exact_context m a (United b)
           = Inr (Decimal (of_int (trunc_quot (magnitude a) (magnitude b))),
                  United (UD (unit_of a) (trunc_rem (magnitude a) (magnitude b))))"
  using assms
  by (simp_all add: ud_divmod_def isinstance_UnitedDecimal_simps check_units_match_simps
      bind_result_simps dec_divmod_def convert_other_simps exact_context_simps raise_signal_def
      new_Decimal)

lemma divmod_scenario:
  "ud_divmod exact_context price_unit_matches (UD TaxfulPrice 7) (United (UD TaxfulPrice 2))
     = Inr (Decimal 3, United (UD TaxfulPrice 1))"
  by (simp add: ud_divmod_matching price_unit_matches_simps trunc_7_2)

lemma divmod_scenario_any_context:
  assumes "quotient_fits ctx 3" and "finalize ctx 1 = Inr 1"
  shows "ud_divmod ctx price_unit_matches (UD TaxfulPrice 7) (United (UD TaxfulPrice 2))
     = Inr (Decimal 3, United (UD TaxfulPrice 1))"
  using assms ud_divmod_matching(1) [of price_unit_matches "UD TaxfulPrice 7" "UD TaxfulPrice 2" ctx 1]
  by (simp add: price_unit_matches_simps trunc_7_2)

text \<open>
  In the context of one digit the arithmetic of the decimal primitive shows through
  the methods: a product is rounded, and a product or a quotient of two digits
  overflows.
\<close>

lemma floor_9_2: "\<lfloor>9 / 2 :: rat\<rfloor> = 4"
  by (simp add: floor_eq_iff)

lemma round_half_even_examples:
  "round_half_even (9 / 2) = 4"
  "round_half_even 10 = 10"
  by (simp_all add: round_half_even_def Let_def floor_9_2)

lemma one_digit_context_examples:
  "ud_mul one_digit_context (UD TaxfulPrice 3) (Decimal (3 / 2))
     = Inr (United (UD TaxfulPrice 4))"
  "ud_mul one_digit_context (UD TaxfulPrice 5) (PyInt 2) = Inl (DecimalSignal Overflow)"
  "ud_truediv one_digit_context price_unit_matches (UD TaxfulPrice 5) (Decimal (1 / 2))
     = Inl (DecimalSignal Overflow)"
  "ud_truediv one_digit_context price_unit_matches (UD TaxfulPrice 5)
       (United (UD TaxfulPrice (1 / 2)))
     = Inl (DecimalSignal Overflow)"
  by (simp_all add: ud_mul_def ud_truediv_def isinstance_UnitedDecimal_simps
      price_unit_matches_simps check_units_match_simps dec_mul_def dec_arith_def
      dec_truediv_def divide_values_def convert_other_simps finalized_def raise_signal_def
      bind_result_simps one_digit_context_def round_half_even_examples new_Decimal)

section \<open>The claims\<close>

text \<open>
  C1. For a united decimal \<open>a\<close> and a united decimal \<open>b\<close> of another unit
  (\<^verbatim>\<open>a.unit_matches_with(b)\<close> is false), each of \<^verbatim>\<open>a + b\<close>, \<^verbatim>\<open>a - b\<close>,
  \<^verbatim>\<open>a < b\<close>, \<^verbatim>\<open>a <= b\<close>, \<^verbatim>\<open>a > b\<close>, \<^verbatim>\<open>a >= b\<close>, \<^verbatim>\<open>a // b\<close>,
  \<^verbatim>\<open>a % b\<close> and \<^verbatim>\<open>divmod(a, b)\<close> raises \<^verbatim>\<open>UnitMixupError\<close>, and the
  exception carries the two operands, \<open>a\<close> first. This holds in every decimal
  context.
\<close>

theorem unit_mismatch_raises_UnitMixupError:
  assumes "\<not> m a (United b)"
  shows "ud_add ctx m a (United b) = Inl (UnitMixupError a (United b))
       \<and> ud_sub ctx m a (United b) = Inl (UnitMixupError a (United b))
       \<and> ud_lt m a (United b) = Inl (UnitMixupError a (United b))
       \<and> ud_le m a (United b) = Inl (UnitMixupError a (United b))
       \<and> ud_gt m a (United b) = Inl (UnitMixupError a (United b))
       \<and> ud_ge m a (United b) = Inl (UnitMixupError a (United b))
       \<and> ud_floordiv ctx m a (United b) = Inl (UnitMixupError a (United b))
       \<and> ud_mod ctx m a (United b) = Inl (UnitMixupError a (United b))
       \<and> ud_divmod ctx m a (United b) = Inl (UnitMixupError a (United b))"
  using assms
  by (simp add: ud_add_def ud_sub_def ud_lt_def ud_le_def ud_gt_def ud_ge_def
      ud_floordiv_def ud_mod_def ud_divmod_def check_units_match_simps
      bind_result_simps isinstance_UnitedDecimal_simps)

theorem unit_mismatch_raises_UnitMixupError_witness:
  "\<not> price_unit_matches (UD TaxfulPrice 10) (United (UD TaxlessPrice 2))
   \<and> ud_add exact_context price_unit_matches (UD TaxfulPrice 10) (United (UD TaxlessPrice 2))
       = Inl (UnitMixupError (UD TaxfulPrice 10) (United (UD TaxlessPrice 2)))
   \<and> ud_lt price_unit_matches (UD TaxfulPrice 10) (United (UD TaxlessPrice 2))
       = Inl (UnitMixupError (UD TaxfulPrice 10) (United (UD TaxlessPrice 2)))
   \<and> ud_divmod exact_context price_unit_matches (UD TaxfulPrice 10)
         (United (UD TaxlessPrice 2))
       = Inl (UnitMixupError (UD TaxfulPrice 10) (United (UD TaxlessPrice 2)))"
proof -
  have h: "\<not> price_unit_matches (UD TaxfulPrice 10) (United (UD TaxlessPrice 2))"
    by (simp add: price_unit_matches_simps)
  from unit_mismatch_raises_UnitMixupError
      [of price_unit_matches "UD TaxfulPrice 10" "UD TaxlessPrice 2" exact_context, OF h] h
  show ?thesis by blast
qed

text \<open>
  C2. When the unit of \<open>b\<close> does not match that of \<open>a\<close> (\<open>b\<close> any object, a
  united decimal or not), \<^verbatim>\<open>a == b\<close> returns \<^verbatim>\<open>False\<close> and \<^verbatim>\<open>a != b\<close>
  returns \<^verbatim>\<open>True\<close>, and nothing is raised. When the units match, both are
  the comparison of the decimal primitive on the magnitudes.
\<close>

theorem eq_ne_never_raise:
  "(\<not> m a b \<longrightarrow> ud_eq m a b = Inr (PyBool False) \<and> ud_ne m a b = Inr (PyBool True))
   \<and> (m a b \<longrightarrow> ud_eq m a b = dec_eq (magnitude a) b \<and> ud_ne m a b = dec_ne (magnitude a) b)
   \<and> (m a b \<and> convert_for_comparison b = Some y \<longrightarrow>
        ud_eq m a b = Inr (PyBool (magnitude a = y))
        \<and> ud_ne m a b = Inr (PyBool (magnitude a \<noteq> y)))"
  by (simp add: ud_eq_def ud_ne_def dec_eq_def dec_ne_def dec_compare_def)

theorem eq_ne_never_raise_witness:
  "\<not> price_unit_matches (UD TaxfulPrice 10) (PyInt 10)
   \<and> ud_eq price_unit_matches (UD TaxfulPrice 10) (PyInt 10) = Inr (PyBool False)
   \<and> ud_ne price_unit_matches (UD TaxfulPrice 10) (PyInt 10) = Inr (PyBool True)
   \<and> price_unit_matches (UD TaxfulPrice 10) (United (UD TaxfulPrice 10))
   \<and> ud_eq price_unit_matches (UD TaxfulPrice 10) (United (UD TaxfulPrice 10))
       = Inr (PyBool True)
   \<and> ud_ne price_unit_matches (UD TaxfulPrice 10) (United (UD TaxfulPrice 10))
       = Inr (PyBool False)"
proof -
  have h1: "\<not> price_unit_matches (UD TaxfulPrice 10) (PyInt 10)"
    and h2: "price_unit_matches (UD TaxfulPrice 10) (United (UD TaxfulPrice 10))"
    and h3: "convert_for_comparison (United (UD TaxfulPrice 10)) = Some 10"
    by (simp_all add: price_unit_matches_simps convert_for_comparison_simps)
  note mismatch =
    eq_ne_never_raise [of price_unit_matches "UD TaxfulPrice 10" "PyInt 10" 0,
      THEN conjunct1, rule_format, OF h1]
  note match =
    eq_ne_never_raise [of price_unit_matches "UD TaxfulPrice 10" "United (UD TaxfulPrice 10)" 10,
      THEN conjunct2, THEN conjunct2, rule_format, OF conjI [OF h2 h3]]
  from mismatch match h1 h2 show ?thesis by simp
qed

text \<open>
  C3, as the specification states it: in reverse true division the unit check runs
  before the check that the other operand is a united decimal. It does not: for a
  plain decimal, which \<open>price_unit_matches\<close> does not match, the source raises
  \<^verbatim>\<open>TypeError\<close>, and the order of the specification would raise
  \<^verbatim>\<open>UnitMixupError\<close>.
\<close>

theorem rtruediv_unit_check_first_counterexample:
  "\<not> (ud_rtruediv exact_context price_unit_matches (UD TaxfulPrice 1) (Decimal 1)
        = rtruediv_unit_check_first exact_context price_unit_matches (UD TaxfulPrice 1)
            (Decimal 1))"
  by (simp add: ud_rtruediv_def rtruediv_unit_check_first_def isinstance_UnitedDecimal_simps
      price_unit_matches_simps check_units_match_simps bind_result_simps)

text \<open>
  C3, amended: for every operand \<open>x\<close> that is not a united decimal,
  \<^verbatim>\<open>a.__rtruediv__(x)\<close> (that is \<^verbatim>\<open>x / a\<close>) raises \<^verbatim>\<open>TypeError\<close>, whatever
  the unit check would say, since the check of the operand's type runs first. The
  unit check runs after it: a united decimal \<open>b\<close> whose unit does not match raises
  \<^verbatim>\<open>UnitMixupError(a, b)\<close>, and \<^verbatim>\<open>UnitMixupError\<close> is raised in no other
  case.
\<close>

theorem rtruediv_type_check_first:
  "(\<not> isinstance_UnitedDecimal x \<longrightarrow> ud_rtruediv ctx m a x = Inl TypeError)
   \<and> (\<not> m a (United b) \<longrightarrow>
        ud_rtruediv ctx m a (United b) = Inl (UnitMixupError a (United b)))
   \<and> (ud_rtruediv ctx m a x = Inl (UnitMixupError e1 e2) \<longrightarrow>
        isinstance_UnitedDecimal x \<and> \<not> m a x)"
  by (auto simp: ud_rtruediv_def isinstance_UnitedDecimal_simps check_units_match_def
      bind_result_def dec_rtruediv_def divide_values_def finalized_def raise_signal_def
      split: option.splits if_splits sum.splits)

theorem rtruediv_type_check_first_witness:
  "\<not> isinstance_UnitedDecimal (Decimal 1 :: price_class pyval)
   \<and> ud_rtruediv exact_context price_unit_matches (UD TaxfulPrice 1) (Decimal 1)
       = Inl TypeError
   \<and> ud_rtruediv exact_context (\<lambda>self other. True) (UD TaxfulPrice 1) (Decimal 1)
       = Inl TypeError
   \<and> \<not> price_unit_matches (UD TaxfulPrice 1) (United (UD TaxlessPrice 1))
   \<and> ud_rtruediv exact_context price_unit_matches (UD TaxfulPrice 1)
         (United (UD TaxlessPrice 1))
       = Inl (UnitMixupError (UD TaxfulPrice 1) (United (UD TaxlessPrice 1)))"
proof -
  have h1: "\<not> isinstance_UnitedDecimal (Decimal 1 :: price_class pyval)"
    and h2: "\<not> price_unit_matches (UD TaxfulPrice 1) (United (UD TaxlessPrice 1))"
    by (simp_all add: isinstance_UnitedDecimal_simps price_unit_matches_simps)
  note plain =
    rtruediv_type_check_first
      [where x = "Decimal 1" and ctx = exact_context and m = price_unit_matches
         and a = "UD TaxfulPrice 1", THEN conjunct1, rule_format, OF h1]
  note plain_matching =
    rtruediv_type_check_first
      [where x = "Decimal 1" and ctx = exact_context and m = "\<lambda>self other. True"
         and a = "UD TaxfulPrice 1", THEN conjunct1, rule_format, OF h1]
  note mixup =
    rtruediv_type_check_first
      [where ctx = exact_context and m = price_unit_matches and a = "UD TaxfulPrice 1"
         and b = "UD TaxlessPrice 1", THEN conjunct2, THEN conjunct1, rule_format, OF h2]
  from plain plain_matching mixup h1 h2 show ?thesis by blast
qed



text \<open>
  C5, as the specification states it: dividing a united decimal by a plain number
  succeeds. It does not for the plain number zero, where the division of the
  decimal primitive raises \<^verbatim>\<open>DivisionByZero\<close>, nor for a float, which that
  division does not accept (it returns \<^verbatim>\<open>NotImplemented\<close>, and \<^verbatim>\<open>new\<close>
  raises \<^verbatim>\<open>TypeError\<close>).
\<close>

theorem truediv_by_plain_number_counterexample:
  "ud_truediv exact_context price_unit_matches (UD TaxfulPrice 1) (PyInt 0)
     = Inl (DecimalSignal DivisionByZero)
   \<and> ud_truediv exact_context price_unit_matches (UD TaxfulPrice 10) (PyFloat (3 / 2))
     = Inl TypeError"
  by (simp add: ud_truediv_def isinstance_UnitedDecimal_simps dec_truediv_def
      convert_other_simps divide_values_def bind_result_simps new_def)

text \<open>
  C5, amended. For united decimals \<open>a\<close> and \<open>b\<close> of the same unit,
  \<^verbatim>\<open>a / b\<close> is the division \<^verbatim>\<open>a.value / b.value\<close> of the decimal primitive: for
  \<open>b \<noteq> 0\<close> it returns the plain decimal that the context makes of the quotient
  (the quotient itself under exact arithmetic), and it fails only where the context
  raises a signal. Dividing \<open>a\<close> by a plain decimal or integer \<open>s \<noteq> 0\<close> returns, in
  the same way, the quotient as an instance of the class of \<open>a\<close>. A plain zero
  raises the signal of the decimal module, and a float raises \<^verbatim>\<open>TypeError\<close>.
\<close>

theorem truediv_contract:
  "(m a (United b) \<longrightarrow>
      ud_truediv ctx m a (United b) = dec_truediv ctx (magnitude a) (value_of b))
   \<and> (m a (United b) \<and> magnitude b \<noteq> 0
        \<and> finalize ctx (magnitude a / magnitude b) = Inr z \<longrightarrow>
      ud_truediv ctx m a (United b) = Inr (Decimal z))
   \<and> (m a (United b) \<and> magnitude b \<noteq> 0 \<longrightarrow>
      ud_truediv exact_context m a (United b) = Inr (Decimal (magnitude a / magnitude b)))
   \<and> (\<not> isinstance_UnitedDecimal s \<and> convert_other s = Some y \<and> y \<noteq> 0
        \<and> finalize ctx (magnitude a / y) = Inr z \<longrightarrow>
      ud_truediv ctx m a s = Inr (United (UD (unit_of a) z)))
   \<and> (\<not> isinstance_UnitedDecimal s \<and> convert_other s = Some y \<and> y \<noteq> 0
        \<and> finalize ctx (magnitude a / y) = Inl e \<longrightarrow>
      ud_truediv ctx m a s = Inl (DecimalSignal e))
   \<and> (\<not> isinstance_UnitedDecimal s \<and> convert_other s = Some y \<and> y \<noteq> 0 \<longrightarrow>
      ud_truediv exact_context m a s = Inr (United (UD (unit_of a) (magnitude a / y))))
   \<and> (\<not> isinstance_UnitedDecimal s \<and> convert_other s = Some 0 \<longrightarrow>
      ud_truediv ctx m a s
        = Inl (DecimalSignal (if magnitude a = 0 then InvalidOperation else DivisionByZero)))
   \<and> ud_truediv ctx m a (PyFloat f) = Inl TypeError"
proof -
  have united: "m a (United b) \<longrightarrow>
      ud_truediv ctx m a (United b) = dec_truediv ctx (magnitude a) (value_of b)"
    "m a (United b) \<and> magnitude b \<noteq> 0
        \<and> finalize ctx (magnitude a / magnitude b) = Inr z \<longrightarrow>
      ud_truediv ctx m a (United b) = Inr (Decimal z)"
    "m a (United b) \<and> magnitude b \<noteq> 0 \<longrightarrow>
      ud_truediv exact_context m a (United b) = Inr (Decimal (magnitude a / magnitude b))"
    using ud_truediv_united [of m a b] by blast+
  have plain: "\<not> isinstance_UnitedDecimal s \<and> convert_other s = Some y \<and> y \<noteq> 0
        \<and> finalize ctx (magnitude a / y) = Inr z \<longrightarrow>
      ud_truediv ctx m a s = Inr (United (UD (unit_of a) z))"
    "\<not> isinstance_UnitedDecimal s \<and> convert_other s = Some y \<and> y \<noteq> 0
        \<and> finalize ctx (magnitude a / y) = Inl e \<longrightarrow>
      ud_truediv ctx m a s = Inl (DecimalSignal e)"
    "\<not> isinstance_UnitedDecimal s \<and> convert_other s = Some y \<and> y \<noteq> 0 \<longrightarrow>
      ud_truediv exact_context m a s = Inr (United (UD (unit_of a) (magnitude a / y)))"
    "\<not> isinstance_UnitedDecimal s \<and> convert_other s = Some 0 \<longrightarrow>
      ud_truediv ctx m a s
        = Inl (DecimalSignal (if magnitude a = 0 then InvalidOperation else DivisionByZero))"
    by (simp_all add: ud_truediv_plain)
  from united plain ud_truediv_float [of ctx m a f] show ?thesis
    by (intro conjI)
qed

theorem truediv_contract_witness:
  "price_unit_matches (UD TaxfulPrice 10) (United (UD TaxfulPrice 4))
   \<and> magnitude (UD TaxfulPrice 4) \<noteq> 0
   \<and> ud_truediv exact_context price_unit_matches (UD TaxfulPrice 10)
         (United (UD TaxfulPrice 4))
       = Inr (Decimal (5 / 2))
   \<and> \<not> isinstance_UnitedDecimal (PyInt 4 :: price_class pyval)
   \<and> convert_other (PyInt 4 :: price_class pyval) = Some 4
   \<and> ud_truediv exact_context price_unit_matches (UD TaxfulPrice 10) (PyInt 4)
       = Inr (United (UD TaxfulPrice (5 / 2)))
   \<and> ud_truediv exact_context price_unit_matches (UD TaxfulPrice 10) (PyFloat 4)
       = Inl TypeError"
proof -
  have h1: "price_unit_matches (UD TaxfulPrice 10) (United (UD TaxfulPrice 4))
            \<and> magnitude (UD TaxfulPrice 4) \<noteq> 0"
    and h2: "\<not> isinstance_UnitedDecimal (PyInt 4 :: price_class pyval)
            \<and> convert_other (PyInt 4 :: price_class pyval) = Some 4 \<and> (4::rat) \<noteq> 0"
    by (simp_all add: price_unit_matches_simps isinstance_UnitedDecimal_simps
        convert_other_simps)
  note contract =
    truediv_contract [where m = price_unit_matches and a = "UD TaxfulPrice 10"
      and b = "UD TaxfulPrice 4" and s = "PyInt 4" and y = 4 and ctx = exact_context
      and f = 4]
  note united = contract [THEN conjunct2, THEN conjunct2, THEN conjunct1, rule_format, OF h1]
  note plain =
    contract [THEN conjunct2, THEN conjunct2, THEN conjunct2, THEN conjunct2, THEN conjunct2,
      THEN conjunct1, rule_format, OF h2]
  note float =
    contract [THEN conjunct2, THEN conjunct2, THEN conjunct2, THEN conjunct2, THEN conjunct2,
      THEN conjunct2, THEN conjunct2]
  from united plain float h1 h2 show ?thesis by simp
qed

text \<open>
  C6, as the specification states it: \<^verbatim>\<open>a * s\<close> and \<^verbatim>\<open>s * a\<close> succeed for every
  plain scalar \<open>s\<close>. They do not for a float: the multiplication of the decimal
  primitive returns \<^verbatim>\<open>NotImplemented\<close> for it, and \<^verbatim>\<open>new\<close> raises
  \<^verbatim>\<open>TypeError\<close>.
\<close>

theorem mul_by_float_counterexample:
  "ud_mul exact_context (UD TaxfulPrice 10) (PyFloat (3 / 2)) = Inl TypeError
   \<and> ud_rmul exact_context (UD TaxfulPrice 10) (PyFloat (3 / 2)) = Inl TypeError"
  by (simp add: ud_rmul_def ud_mul_float)

text \<open>
  C6, amended. For a united decimal \<open>a\<close> and a plain scalar \<open>s\<close> that is a decimal
  or an integer, of value \<open>y\<close>, \<^verbatim>\<open>a * s\<close> and \<^verbatim>\<open>s * a\<close> are
  \<^verbatim>\<open>a.new(a.value * s)\<close>: where the product \<^verbatim>\<open>a.value * s\<close> of the decimal
  primitive is the decimal of value \<open>z\<close>, both return the instance of the class of
  \<open>a\<close> with the value \<open>z\<close> (the exact product under exact arithmetic), and they
  fail only where that product raises a signal of the context. For a float scalar
  both raise \<^verbatim>\<open>TypeError\<close>.
\<close>

theorem mul_by_scalar:
  "(\<not> isinstance_UnitedDecimal s \<and> convert_other s = Some y
      \<and> finalize ctx (magnitude a * y) = Inr z \<longrightarrow>
        dec_mul ctx (magnitude a) s = (Inr (Decimal z) :: 'u error + 'u pyval)
        \<and> ud_mul ctx a s = Inr (United (UD (unit_of a) z))
        \<and> ud_rmul ctx a s = Inr (United (UD (unit_of a) z))
        \<and> ud_mul ctx a s = new a (Decimal z)
        \<and> ud_rmul ctx a s = new a (Decimal z))
   \<and> (\<not> isinstance_UnitedDecimal s \<and> convert_other s = Some y
      \<and> finalize ctx (magnitude a * y) = Inl e \<longrightarrow>
        dec_mul ctx (magnitude a) s = (Inl (DecimalSignal e) :: 'u error + 'u pyval)
        \<and> ud_mul ctx a s = Inl (DecimalSignal e)
        \<and> ud_rmul ctx a s = Inl (DecimalSignal e))
   \<and> (\<not> isinstance_UnitedDecimal s \<and> convert_other s = Some y \<longrightarrow>
        ud_mul exact_context a s = Inr (United (UD (unit_of a) (magnitude a * y)))
        \<and> ud_rmul exact_context a s = Inr (United (UD (unit_of a) (magnitude a * y))))
   \<and> ud_mul ctx a (PyFloat f) = Inl TypeError
   \<and> ud_rmul ctx a (PyFloat f) = Inl TypeError"
  by (simp add: ud_rmul_def ud_mul_plain ud_mul_float new_Decimal)

theorem mul_by_scalar_witness:
  "\<not> isinstance_UnitedDecimal (Decimal (3 / 2) :: price_class pyval)
   \<and> convert_other (Decimal (3 / 2) :: price_class pyval) = Some (3 / 2)
   \<and> ud_mul exact_context (UD TaxlessPrice 10) (Decimal (3 / 2))
       = Inr (United (UD TaxlessPrice 15))
   \<and> ud_rmul exact_context (UD TaxlessPrice 10) (Decimal (3 / 2))
       = Inr (United (UD TaxlessPrice 15))
   \<and> \<not> isinstance_UnitedDecimal (PyInt 3 :: price_class pyval)
   \<and> convert_other (PyInt 3 :: price_class pyval) = Some 3
   \<and> finalize exact_context (magnitude (UD TaxlessPrice 10) * 3) = Inr 30
   \<and> ud_mul exact_context (UD TaxlessPrice 10) (PyInt 3) = Inr (United (UD TaxlessPrice 30))
   \<and> ud_rmul exact_context (UD TaxlessPrice 10) (PyInt 3) = Inr (United (UD TaxlessPrice 30))"
proof -
  have h1: "\<not> isinstance_UnitedDecimal (Decimal (3 / 2) :: price_class pyval)
            \<and> convert_other (Decimal (3 / 2) :: price_class pyval) = Some (3 / 2)"
    and h2: "\<not> isinstance_UnitedDecimal (PyInt 3 :: price_class pyval)
            \<and> convert_other (PyInt 3 :: price_class pyval) = Some 3
            \<and> finalize exact_context (magnitude (UD TaxlessPrice 10) * 3) = Inr 30"
    by (simp_all add: isinstance_UnitedDecimal_simps convert_other_simps exact_context_simps)
  note exact =
    mul_by_scalar [where s = "Decimal (3 / 2)" and y = "3 / 2" and a = "UD TaxlessPrice 10",
      THEN conjunct2, THEN conjunct2, THEN conjunct1, rule_format, OF h1]
  note in_context =
    mul_by_scalar [where s = "PyInt 3" and y = 3 and a = "UD TaxlessPrice 10"
      and ctx = exact_context and z = 30, THEN conjunct1, rule_format, OF h2]
  from exact in_context h1 h2 show ?thesis by simp
qed

text \<open>
  C7. \<^verbatim>\<open>divmod(a, b)\<close> raises \<^verbatim>\<open>TypeError\<close> for every \<open>b\<close> that is not a
  united decimal and \<^verbatim>\<open>UnitMixupError\<close> for a united decimal of another unit.
  For a matching \<open>b \<noteq> 0\<close> it returns the pair of the integer quotient, a plain
  decimal, and the remainder, an instance of the class of \<open>a\<close>; and whenever it
  returns, the operand was a matching united decimal and the pair has that shape.
  \<^verbatim>\<open>divmod(TaxfulPrice(7), TaxfulPrice(2))\<close> is
  \<^verbatim>\<open>(Decimal(3), TaxfulPrice(1))\<close>, under exact arithmetic and in every context
  in which the quotient 3 fits the precision and the remainder 1 is not changed.
\<close>

theorem divmod_contract:
  "(\<not> isinstance_UnitedDecimal s \<longrightarrow> ud_divmod ctx m a s = Inl TypeError)
   \<and> (\<not> m a (United b) \<longrightarrow>
        ud_divmod ctx m a (United b) = Inl (UnitMixupError a (United b)))
   \<and> (m a (United b) \<and> magnitude b \<noteq> 0 \<longrightarrow>
        ud_divmod exact_context m a (United b)
          = Inr (Decimal (of_int (trunc_quot (magnitude a) (magnitude b))),
                 United (UD (unit_of a) (trunc_rem (magnitude a) (magnitude b)))))
   \<and> (m a (United b) \<and> magnitude b \<noteq> 0
        \<and> quotient_fits ctx (trunc_quot (magnitude a) (magnitude b))
        \<and> finalize ctx (trunc_rem (magnitude a) (magnitude b)) = Inr z \<longrightarrow>
        ud_divmod ctx m a (United b)
          = Inr (Decimal (of_int (trunc_quot (magnitude a) (magnitude b))),
                 United (UD (unit_of a) z)))
   \<and> (ud_divmod ctx m a s = Inr (q, r) \<longrightarrow>
        isinstance_UnitedDecimal s \<and> m a s
        \<and> (\<exists>x. q = Decimal x) \<and> (\<exists>y. r = United (UD (unit_of a) y)))
   \<and> ud_divmod exact_context price_unit_matches (UD TaxfulPrice 7) (United (UD TaxfulPrice 2))
        = Inr (Decimal 3, United (UD TaxfulPrice 1))
   \<and> (quotient_fits ctx 3 \<and> finalize ctx 1 = Inr 1 \<longrightarrow>
        ud_divmod ctx price_unit_matches (UD TaxfulPrice 7) (United (UD TaxfulPrice 2))
          = Inr (Decimal 3, United (UD TaxfulPrice 1)))"
proof -
  have 1: "\<not> isinstance_UnitedDecimal s \<longrightarrow> ud_divmod ctx m a s = Inl TypeError"
    by (simp add: ud_divmod_def)
  have 2: "\<not> m a (United b) \<longrightarrow>
      ud_divmod ctx m a (United b) = Inl (UnitMixupError a (United b))"
    by (simp add: ud_divmod_def isinstance_UnitedDecimal_simps check_units_match_simps
        bind_result_simps)
  have 3: "m a (United b) \<and> magnitude b \<noteq> 0 \<longrightarrow>
        ud_divmod exact_context m a (United b)
          = Inr (Decimal (of_int (trunc_quot (magnitude a) (magnitude b))),
                 United (UD (unit_of a) (trunc_rem (magnitude a) (magnitude b))))"
    by (simp add: ud_divmod_matching)
  have 4: "m a (United b) \<and> magnitude b \<noteq> 0
        \<and> quotient_fits ctx (trunc_quot (magnitude a) (magnitude b))
        \<and> finalize ctx (trunc_rem (magnitude a) (magnitude b)) = Inr z \<longrightarrow>
        ud_divmod ctx m a (United b)
          = Inr (Decimal (of_int (trunc_quot (magnitude a) (magnitude b))),
                 United (UD (unit_of a) z))"
    by (simp add: ud_divmod_matching)
  have 5: "ud_divmod ctx m a s = Inr (q, r) \<longrightarrow>
        isinstance_UnitedDecimal s \<and> m a s
        \<and> (\<exists>x. q = Decimal x) \<and> (\<exists>y. r = United (UD (unit_of a) y))"
    by (auto simp: ud_divmod_def check_units_match_def bind_result_def dec_divmod_def
        raise_signal_def new_Decimal split: if_splits option.splits sum.splits)
  have 6: "quotient_fits ctx 3 \<and> finalize ctx 1 = Inr 1 \<longrightarrow>
        ud_divmod ctx price_unit_matches (UD TaxfulPrice 7) (United (UD TaxfulPrice 2))
          = Inr (Decimal 3, United (UD TaxfulPrice 1))"
    by (simp add: divmod_scenario_any_context)
  from 1 2 3 4 5 divmod_scenario 6 show ?thesis
    by (intro conjI)
qed

theorem divmod_contract_witness:
  "\<not> isinstance_UnitedDecimal (PyInt 2 :: price_class pyval)
   \<and> ud_divmod exact_context price_unit_matches (UD TaxfulPrice 7) (PyInt 2) = Inl TypeError
   \<and> \<not> price_unit_matches (UD TaxfulPrice 7) (United (UD TaxlessPrice 2))
   \<and> ud_divmod exact_context price_unit_matches (UD TaxfulPrice 7) (United (UD TaxlessPrice 2))
       = Inl (UnitMixupError (UD TaxfulPrice 7) (United (UD TaxlessPrice 2)))
   \<and> price_unit_matches (UD TaxfulPrice 7) (United (UD TaxfulPrice 2))
   \<and> magnitude (UD TaxfulPrice 2) \<noteq> 0
   \<and> ud_divmod exact_context price_unit_matches (UD TaxfulPrice 7) (United (UD TaxfulPrice 2))
       = Inr (Decimal 3, United (UD TaxfulPrice 1))
   \<and> isinstance_UnitedDecimal (United (UD TaxfulPrice 2))"
proof -
  have h1: "\<not> isinstance_UnitedDecimal (PyInt 2 :: price_class pyval)"
    and h2: "\<not> price_unit_matches (UD TaxfulPrice 7) (United (UD TaxlessPrice 2))"
    and h3: "price_unit_matches (UD TaxfulPrice 7) (United (UD TaxfulPrice 2))
             \<and> magnitude (UD TaxfulPrice 2) \<noteq> 0"
    by (simp_all add: isinstance_UnitedDecimal_simps price_unit_matches_simps)
  note plain =
    divmod_contract [where s = "PyInt 2" and ctx = exact_context and m = price_unit_matches
      and a = "UD TaxfulPrice 7", THEN conjunct1, rule_format, OF h1]
  note mixup =
    divmod_contract [where ctx = exact_context and m = price_unit_matches
      and a = "UD TaxfulPrice 7" and b = "UD TaxlessPrice 2",
      THEN conjunct2, THEN conjunct1, rule_format, OF h2]
  note pair =
    divmod_contract [where m = price_unit_matches and a = "UD TaxfulPrice 7"
      and b = "UD TaxfulPrice 2",
      THEN conjunct2, THEN conjunct2, THEN conjunct1, rule_format, OF h3]
  note shape =
    divmod_contract [where s = "United (UD TaxfulPrice 2)" and ctx = exact_context
      and m = price_unit_matches and a = "UD TaxfulPrice 7"
      and q = "Decimal (of_int (trunc_quot 7 2))"
      and r = "United (UD TaxfulPrice (trunc_rem 7 2))",
      THEN conjunct2, THEN conjunct2, THEN conjunct2, THEN conjunct2, THEN conjunct1,
      rule_format]
  from pair have returned:
    "ud_divmod exact_context price_unit_matches (UD TaxfulPrice 7) (United (UD TaxfulPrice 2))
       = Inr (Decimal (of_int (trunc_quot 7 2)), United (UD TaxfulPrice (trunc_rem 7 2)))"
    by simp
  from plain mixup returned shape [OF returned] h1 h2 h3 show ?thesis
    by (simp add: trunc_7_2)
qed

text \<open>
  C8. The operations that are disallowed whatever the units raise the plain
  \<^verbatim>\<open>TypeError\<close>, which is no \<^verbatim>\<open>UnitMixupError\<close>: the product of two united
  decimals (matching or not: multiplication never looks at the units), any power,
  and floor division, modulo, \<^verbatim>\<open>divmod\<close> and the reverse divisions with an
  operand that is not a united decimal, for every unit matching rule \<open>m\<close> and in
  every context.
\<close>

theorem disallowed_operations_raise_TypeError:
  "ud_mul ctx a (United b) = Inl TypeError
   \<and> ud_rmul ctx a (United b) = Inl TypeError
   \<and> ud_pow a x = Inl TypeError
   \<and> (\<not> isinstance_UnitedDecimal s \<longrightarrow>
        ud_floordiv ctx m a s = Inl TypeError
        \<and> ud_mod ctx m a s = Inl TypeError
        \<and> ud_divmod ctx m a s = Inl TypeError
        \<and> ud_rtruediv ctx m a s = Inl TypeError
        \<and> ud_rfloordiv ctx m a s = Inl TypeError)
   \<and> class_of (TypeError :: 'u error) = TypeError_class
   \<and> \<not> catches UnitMixupError_class (TypeError :: 'u error)"
proof -
  have "class_of (TypeError :: 'u error) = TypeError_class"
    and "\<not> catches UnitMixupError_class (TypeError :: 'u error)"
    by (simp_all add: catches_def class_of_def issubclass_def bases_def eval_nat_numeral)
  then show ?thesis
    by (simp add: ud_mul_def ud_rmul_def ud_pow_def ud_floordiv_def ud_mod_def ud_divmod_def
        ud_rtruediv_def ud_rfloordiv_def isinstance_UnitedDecimal_simps)
qed

theorem disallowed_operations_raise_TypeError_witness:
  "price_unit_matches (UD TaxfulPrice 10) (United (UD TaxfulPrice 2))
   \<and> ud_mul exact_context (UD TaxfulPrice 10) (United (UD TaxfulPrice 2)) = Inl TypeError
   \<and> ud_pow (UD TaxfulPrice 10) (PyInt 2) = Inl TypeError
   \<and> \<not> isinstance_UnitedDecimal (PyInt 2 :: price_class pyval)
   \<and> ud_floordiv exact_context price_unit_matches (UD TaxfulPrice 10) (PyInt 2) = Inl TypeError
   \<and> ud_mod exact_context price_unit_matches (UD TaxfulPrice 10) (PyInt 2) = Inl TypeError
   \<and> ud_divmod exact_context price_unit_matches (UD TaxfulPrice 10) (PyInt 2) = Inl TypeError
   \<and> ud_rtruediv exact_context price_unit_matches (UD TaxfulPrice 10) (PyInt 2) = Inl TypeError
   \<and> ud_rfloordiv exact_context price_unit_matches (UD TaxfulPrice 10) (PyInt 2)
       = Inl TypeError"
proof -
  have h1: "price_unit_matches (UD TaxfulPrice 10) (United (UD TaxfulPrice 2))"
    and h2: "\<not> isinstance_UnitedDecimal (PyInt 2 :: price_class pyval)"
    by (simp_all add: price_unit_matches_simps isinstance_UnitedDecimal_simps)
  from disallowed_operations_raise_TypeError
      [where ctx = exact_context and a = "UD TaxfulPrice 10" and b = "UD TaxfulPrice 2"
         and x = "PyInt 2" and s = "PyInt 2" and m = price_unit_matches] h1 h2
  show ?thesis by blast
qed

text \<open>
  C9, as the specification states it: for a plain number \<open>s\<close>, \<^verbatim>\<open>s + a\<close> and
  \<^verbatim>\<open>s - a\<close> treat \<open>s\<close> as a magnitude and return a result of the unit of \<open>a\<close>.
  The source applies the unit check of \<^verbatim>\<open>__add__\<close> to \<open>s\<close>, and under the
  matching rule of the prices, which no plain number passes, \<^verbatim>\<open>3 + a\<close> and
  \<^verbatim>\<open>3 - a\<close> raise \<^verbatim>\<open>UnitMixupError\<close>.
\<close>

theorem radd_rsub_plain_number_counterexample:
  "ud_radd exact_context price_unit_matches (UD TaxfulPrice 10) (PyInt 3)
     = Inl (UnitMixupError (UD TaxfulPrice 10) (PyInt 3))
   \<and> ud_rsub exact_context price_unit_matches (UD TaxfulPrice 10) (PyInt 3)
     = Inl (UnitMixupError (UD TaxfulPrice (- 10)) (PyInt 3))"
  by (simp add: ud_radd_def ud_rsub_def ud_neg_eq bind_result_simps
      unit_mismatch_any_operand price_unit_matches_simps)

text \<open>
  C9, amended. \<^verbatim>\<open>s + a\<close> is \<^verbatim>\<open>a.__add__(s)\<close> and \<^verbatim>\<open>s - a\<close> is
  \<^verbatim>\<open>(-a).__add__(s)\<close>, so both follow the contract of addition, its unit check
  included: an operand \<open>s\<close> that \<^verbatim>\<open>unit_matches_with\<close> rejects, as the rule
  "same concrete variant" rejects every plain number, raises
  \<^verbatim>\<open>UnitMixupError\<close> with the operands \<open>(a, s)\<close>, respectively \<open>(-a, s)\<close>. Only
  where the rule accepts \<open>s\<close>, and \<open>s\<close> is a decimal or an integer of value \<open>y\<close>,
  is it added as a magnitude: the result is the instance of the class of \<open>a\<close> with
  the value that the decimal arithmetic gives \<open>a + y\<close>, respectively \<open>-a + y\<close>
  (these sums themselves under exact arithmetic). An accepted float raises
  \<^verbatim>\<open>TypeError\<close>.
\<close>

theorem radd_rsub_contract:
  "ud_radd ctx m a s = ud_add ctx m a s
   \<and> (finalize ctx (- magnitude a) = Inr n \<longrightarrow>
        ud_neg ctx a = Inr (United (UD (unit_of a) n))
        \<and> ud_rsub ctx m a s = ud_add ctx m (UD (unit_of a) n) s)
   \<and> (\<not> m a s \<longrightarrow> ud_radd ctx m a s = Inl (UnitMixupError a s))
   \<and> (finalize ctx (- magnitude a) = Inr n \<and> \<not> m (UD (unit_of a) n) s \<longrightarrow>
        ud_rsub ctx m a s = Inl (UnitMixupError (UD (unit_of a) n) s))
   \<and> (m a s \<and> convert_other s = Some y \<and> finalize ctx (magnitude a + y) = Inr z \<longrightarrow>
        ud_radd ctx m a s = Inr (United (UD (unit_of a) z)))
   \<and> (finalize ctx (- magnitude a) = Inr n \<and> m (UD (unit_of a) n) s
        \<and> convert_other s = Some y \<and> finalize ctx (n + y) = Inr z \<longrightarrow>
        ud_rsub ctx m a s = Inr (United (UD (unit_of a) z)))
   \<and> (m a s \<and> convert_other s = Some y \<longrightarrow>
        ud_radd exact_context m a s = Inr (United (UD (unit_of a) (y + magnitude a))))
   \<and> (m (UD (unit_of a) (- magnitude a)) s \<and> convert_other s = Some y \<longrightarrow>
        ud_rsub exact_context m a s = Inr (United (UD (unit_of a) (y - magnitude a))))
   \<and> (m a (PyFloat f) \<longrightarrow> ud_radd ctx m a (PyFloat f) = Inl TypeError)"
proof -
  have 1: "ud_radd ctx m a s = ud_add ctx m a s"
    by (simp add: ud_radd_def)
  have 2: "finalize ctx (- magnitude a) = Inr n \<longrightarrow>
        ud_neg ctx a = Inr (United (UD (unit_of a) n))
        \<and> ud_rsub ctx m a s = ud_add ctx m (UD (unit_of a) n) s"
    by (simp add: ud_rsub_def ud_neg_eq bind_result_simps)
  have 3: "\<not> m a s \<longrightarrow> ud_radd ctx m a s = Inl (UnitMixupError a s)"
    by (simp add: ud_radd_def unit_mismatch_any_operand)
  have 4: "finalize ctx (- magnitude a) = Inr n \<and> \<not> m (UD (unit_of a) n) s \<longrightarrow>
        ud_rsub ctx m a s = Inl (UnitMixupError (UD (unit_of a) n) s)"
    by (simp add: ud_rsub_def ud_neg_eq bind_result_simps unit_mismatch_any_operand)
  have 5: "m a s \<and> convert_other s = Some y \<and> finalize ctx (magnitude a + y) = Inr z \<longrightarrow>
        ud_radd ctx m a s = Inr (United (UD (unit_of a) z))"
    by (simp add: ud_radd_def ud_add_matching)
  have 6: "finalize ctx (- magnitude a) = Inr n \<and> m (UD (unit_of a) n) s
        \<and> convert_other s = Some y \<and> finalize ctx (n + y) = Inr z \<longrightarrow>
        ud_rsub ctx m a s = Inr (United (UD (unit_of a) z))"
    using ud_add_matching(1) [of m "UD (unit_of a) n" s y ctx z]
    by (simp add: ud_rsub_def ud_neg_eq bind_result_simps)
  have 7: "m a s \<and> convert_other s = Some y \<longrightarrow>
        ud_radd exact_context m a s = Inr (United (UD (unit_of a) (y + magnitude a)))"
    by (simp add: ud_radd_def ud_add_matching add.commute)
  have 8: "m (UD (unit_of a) (- magnitude a)) s \<and> convert_other s = Some y \<longrightarrow>
        ud_rsub exact_context m a s = Inr (United (UD (unit_of a) (y - magnitude a)))"
    using ud_add_matching(3) [of m "UD (unit_of a) (- magnitude a)" s y]
    by (simp add: ud_rsub_def ud_neg_eq bind_result_simps)
  have 9: "m a (PyFloat f) \<longrightarrow> ud_radd ctx m a (PyFloat f) = Inl TypeError"
    by (simp add: ud_radd_def ud_add_float)
  from 1 2 3 4 5 6 7 8 9 show ?thesis
    by (intro conjI)
qed

theorem radd_rsub_contract_witness:
  "\<not> price_unit_matches (UD TaxfulPrice 10) (PyInt 3)
   \<and> ud_radd exact_context price_unit_matches (UD TaxfulPrice 10) (PyInt 3)
       = Inl (UnitMixupError (UD TaxfulPrice 10) (PyInt 3))
   \<and> finalize exact_context (- magnitude (UD TaxfulPrice 10)) = Inr (- 10)
   \<and> \<not> price_unit_matches (UD TaxfulPrice (- 10)) (PyInt 3)
   \<and> ud_rsub exact_context price_unit_matches (UD TaxfulPrice 10) (PyInt 3)
       = Inl (UnitMixupError (UD TaxfulPrice (- 10)) (PyInt 3))
   \<and> convert_other (PyInt 3 :: price_class pyval) = Some 3
   \<and> ud_radd exact_context (\<lambda>self other. True) (UD TaxfulPrice 10) (PyInt 3)
       = Inr (United (UD TaxfulPrice 13))
   \<and> ud_rsub exact_context (\<lambda>self other. True) (UD TaxfulPrice 10) (PyInt 3)
       = Inr (United (UD TaxfulPrice (- 7)))
   \<and> ud_radd exact_context (\<lambda>self other. True) (UD TaxfulPrice 10) (PyFloat 3)
       = Inl TypeError"
proof -
  have h1: "\<not> price_unit_matches (UD TaxfulPrice 10) (PyInt 3)"
    and h2: "convert_other (PyInt 3 :: price_class pyval) = Some 3"
    and h3: "finalize exact_context (- magnitude (UD TaxfulPrice 10)) = Inr (- 10)
             \<and> \<not> price_unit_matches (UD (unit_of (UD TaxfulPrice 10)) (- 10)) (PyInt 3)"
    by (simp_all add: price_unit_matches_simps convert_other_simps exact_context_simps)
  note strict =
    radd_rsub_contract [where ctx = exact_context and m = price_unit_matches
      and a = "UD TaxfulPrice 10" and s = "PyInt 3" and n = "- 10"]
  note lenient =
    radd_rsub_contract [where ctx = exact_context and m = "\<lambda>self other. True"
      and a = "UD TaxfulPrice 10" and s = "PyInt 3" and y = 3 and f = 3]
  note mixup_radd = strict [THEN conjunct2, THEN conjunct2, THEN conjunct1, rule_format, OF h1]
  note mixup_rsub =
    strict [THEN conjunct2, THEN conjunct2, THEN conjunct2, THEN conjunct1, rule_format, OF h3]
  note sum =
    lenient [THEN conjunct2, THEN conjunct2, THEN conjunct2, THEN conjunct2, THEN conjunct2,
      THEN conjunct2, THEN conjunct1, rule_format, OF conjI [OF TrueI h2]]
  note difference =
    lenient [THEN conjunct2, THEN conjunct2, THEN conjunct2, THEN conjunct2, THEN conjunct2,
      THEN conjunct2, THEN conjunct2, THEN conjunct1, rule_format, OF conjI [OF TrueI h2]]
  note float =
    lenient [THEN conjunct2, THEN conjunct2, THEN conjunct2, THEN conjunct2, THEN conjunct2,
      THEN conjunct2, THEN conjunct2, THEN conjunct2, rule_format, OF TrueI]
  from mixup_radd mixup_rsub sum difference float h1 h2 h3 show ?thesis by simp
qed

text \<open>
  C10. \<^verbatim>\<open>UnitMixupError\<close> is a subclass of \<^verbatim>\<open>TypeError\<close>: a handler for
  \<^verbatim>\<open>TypeError\<close> catches every unit mix-up as well as the plain type errors, so
  the two kinds of error are not disjoint. (The converse fails: a handler for
  \<^verbatim>\<open>UnitMixupError\<close> does not catch a plain \<^verbatim>\<open>TypeError\<close>.)
\<close>

theorem UnitMixupError_is_a_TypeError:
  "bases UnitMixupError_class = [TypeError_class]
   \<and> issubclass UnitMixupError_class TypeError_class
   \<and> catches TypeError_class (UnitMixupError a b)
   \<and> catches TypeError_class (TypeError :: 'u error)
   \<and> \<not> catches UnitMixupError_class (TypeError :: 'u error)"
  by (simp add: catches_def class_of_def issubclass_def bases_def eval_nat_numeral)

theorem UnitMixupError_is_a_TypeError_witness:
  "catches TypeError_class
     (UnitMixupError (UD TaxfulPrice 10) (United (UD TaxlessPrice 2)))
   \<and> ud_add exact_context price_unit_matches (UD TaxfulPrice 10) (United (UD TaxlessPrice 2))
       = Inl (UnitMixupError (UD TaxfulPrice 10) (United (UD TaxlessPrice 2)))"
proof -
  have "ud_add exact_context price_unit_matches (UD TaxfulPrice 10)
          (United (UD TaxlessPrice 2))
       = Inl (UnitMixupError (UD TaxfulPrice 10) (United (UD TaxlessPrice 2)))"
    by (simp add: unit_mismatch_any_operand price_unit_matches_simps)
  with UnitMixupError_is_a_TypeError [of "UD TaxfulPrice 10" "United (UD TaxlessPrice 2)"]
  show ?thesis by blast
qed

end
